theory Spec2Isabelle
  imports Main "HOL-Library.Word"
begin

section \<open>The RTMP client session (client.go) and its router (client\_route.go)\<close>

text \<open>
  The theory follows the two Go files function by function. The mutable \<open>Client\<close> struct
  is a record that every method takes and returns; channels and network connections are
  handles into an explicit store, because \<open>Reset\<close> closes the old ones and makes new
  ones; a Go panic is a value of the result. Mutexes and the atomic add are sequential
  here: one method runs at a time, and what other goroutines and the timers do during
  \<open>Call\<close> is an explicit list of events.
\<close>

subsection \<open>Data\<close>

type_synonym uint32 = "32 word"
type_synonym uint8 = "8 word"

text \<open>
  Errors returned by \<open>Connect\<close> and \<open>Call\<close>. \<open>External\<close> stands for an error value
  produced by the standard library (url, net, tls) or by a method outside the two files.
\<close>

datatype error =
    ErrResponseTimeout
  | External string
  | Unsupported_scheme string
  | Could_not_complete_handshake error
  | Could_not_complete_connect error

datatype panic =
    Close_of_closed_channel
  | Send_on_closed_channel
  | Assignment_to_entry_in_nil_map
  | Invalid_handle
  | Nil_pointer_dereference

text \<open>
  The store: one closed-flag per channel made so far and one per connection dialled so
  far; a handle is the index. \<open>make(chan *Message)\<close> is unbuffered, so a channel holds
  no messages of its own and its state is whether it has been closed.
\<close>

record heap =
  chans :: "bool list"
  conns :: "bool list"

text \<open>
  \<open>type Client struct\<close>, field by field (the mutex is omitted). The element types
  \<open>Response\<close>, \<open>OutboundChunkStream\<close>, \<open>InboundChunkStream\<close> and
  \<open>amf.ExternalHandler\<close> are declared outside the two files and stay type parameters.
  A Go map from \<open>uint32\<close> to a pointer can hold a nil pointer, so the map's values are
  options: \<open>m k = Some None\<close> is a key bound to nil.
\<close>

record ('r, 'o, 'i, 'x) Client =
  url :: string
  connected :: bool
  conn :: "nat option"
  outBytes :: uint32
  outMessages :: "nat option"
  outWindowSize :: uint32
  outChunkSize :: uint32
  outChunkStreams :: "uint32 \<rightharpoonup> 'o option"
  inBytes :: uint32
  inMessages :: "nat option"
  inNotify :: "nat option"
  inWindowSize :: uint32
  inChunkSize :: uint32
  inChunkStreams :: "uint32 \<rightharpoonup> 'i option"
  responses :: "uint32 \<rightharpoonup> 'r option"
  lastTransactionId :: uint32
  connectionId :: string
  amfExternalHandlers :: "string \<rightharpoonup> 'x"

subsection \<open>Transaction ids and the pending-response table\<close>

text \<open>\<open>NextTransactionId\<close>: \<open>atomic.AddUint32(&c.lastTransactionId, 1)\<close> adds one
  modulo \<open>2^32\<close>, stores the sum and returns it.\<close>

definition NextTransactionId ::
  "('r, 'o, 'i, 'x) Client \<Rightarrow> uint32 \<times> ('r, 'o, 'i, 'x) Client" where
  "NextTransactionId c =
     (lastTransactionId c + 1, c\<lparr>lastTransactionId := lastTransactionId c + 1\<rparr>)"

text \<open>
  \<open>GetResponse\<close>: reading a missing key of a Go map gives the zero value, nil, so a
  missing key and a key bound to nil take the same branch; \<open>delete\<close> runs only when
  the value read is not nil. The result is \<open>((response, ready), c)\<close>.
\<close>

definition GetResponse ::
  "uint32 \<Rightarrow> ('r, 'o, 'i, 'x) Client \<Rightarrow> ('r option \<times> bool) \<times> ('r, 'o, 'i, 'x) Client" where
  "GetResponse tid c =
     (case responses c tid of
        Some (Some r) \<Rightarrow> ((Some r, True), c\<lparr>responses := (responses c)(tid := None)\<rparr>)
      | _ \<Rightarrow> ((None, False), c))"

text \<open>The zero value of the struct with the two fields \<open>NewClient\<close> sets.\<close>

definition zero_Client :: "string \<Rightarrow> ('r, 'o, 'i, 'x) Client" where
  "zero_Client u =
     \<lparr> url = u, connected = False, conn = None,
       outBytes = 0, outMessages = None, outWindowSize = 0, outChunkSize = 0,
       outChunkStreams = Map.empty,
       inBytes = 0, inMessages = None, inNotify = None, inWindowSize = 0, inChunkSize = 0,
       inChunkStreams = Map.empty,
       responses = Map.empty, lastTransactionId = 0, connectionId = [],
       amfExternalHandlers = Map.empty \<rparr>"

text \<open>The N sequential calls of \<open>NextTransactionId\<close> on one client, with the ids in
  the order returned.\<close>

fun NextTransactionId_times ::
  "nat \<Rightarrow> ('r, 'o, 'i, 'x) Client \<Rightarrow> uint32 list \<times> ('r, 'o, 'i, 'x) Client" where
  "NextTransactionId_times 0 c = ([], c)"
| "NextTransactionId_times (Suc n) c =
     (let (tid, c1) = NextTransactionId c;
          (tids, c2) = NextTransactionId_times n c1
      in (tid # tids, c2))"

subsection \<open>Session lifecycle\<close>

text \<open>Modelled from the spec: the constants \<open>DEFAULT_CHUNK_SIZE\<close> and
  \<open>DEFAULT_WINDOW_SIZE\<close> are declared outside the two files; the spec gives 128 bytes
  and 2,500,000 bytes.\<close>

definition DEFAULT_CHUNK_SIZE :: uint32 where
  "DEFAULT_CHUNK_SIZE = 128"

definition DEFAULT_WINDOW_SIZE :: uint32 where
  "DEFAULT_WINDOW_SIZE = 2500000"

text \<open>\<open>close(ch)\<close> panics on a channel that is already closed.\<close>

definition close_chan :: "nat \<Rightarrow> heap \<Rightarrow> panic + heap" where
  "close_chan a h =
     (if length (chans h) \<le> a then Inl Invalid_handle
      else if chans h ! a then Inl Close_of_closed_channel
      else Inr (h\<lparr>chans := (chans h)[a := True]\<rparr>))"

definition make_chan :: "heap \<Rightarrow> nat \<times> heap" where
  "make_chan h = (length (chans h), h\<lparr>chans := chans h @ [False]\<rparr>)"

text \<open>\<open>conn.Close()\<close>: on a connection that is already closed it returns an error,
  which \<open>Reset\<close> does not look at; the connection stays closed.\<close>

definition conn_Close :: "nat \<Rightarrow> heap \<Rightarrow> heap" where
  "conn_Close k h = h\<lparr>conns := (conns h)[k := True]\<rparr>"

definition new_conn :: "heap \<Rightarrow> nat \<times> heap" where
  "new_conn h = (length (conns h), h\<lparr>conns := conns h @ [False]\<rparr>)"

text \<open>\<open>if ch != nil { close(ch) }\<close>\<close>

definition close_if_not_nil :: "nat option \<Rightarrow> heap \<Rightarrow> panic + heap" where
  "close_if_not_nil ch h = (case ch of None \<Rightarrow> Inr h | Some a \<Rightarrow> close_chan a h)"

text \<open>
  \<open>Reset\<close>, statement by statement. \<open>c.conn\<close> is closed but not set to nil; the two
  queues are closed when they are not nil, and two new ones are made, the outbound one
  first.
\<close>

definition Reset ::
  "('r, 'o, 'i, 'x) Client \<Rightarrow> heap \<Rightarrow> panic + (('r, 'o, 'i, 'x) Client \<times> heap)" where
  "Reset c h =
     (let h1 = (case conn c of None \<Rightarrow> h | Some k \<Rightarrow> conn_Close k h) in
      case close_if_not_nil (outMessages c) h1 of
        Inl p \<Rightarrow> Inl p
      | Inr h2 \<Rightarrow>
          (case close_if_not_nil (inMessages c) h2 of
             Inl p \<Rightarrow> Inl p
           | Inr h3 \<Rightarrow>
               (let (om, h4) = make_chan h3;
                    (im, h5) = make_chan h4
                in Inr (c\<lparr> connected := False,
                           outBytes := 0,
                           outMessages := Some om,
                           outChunkSize := DEFAULT_CHUNK_SIZE,
                           outWindowSize := DEFAULT_WINDOW_SIZE,
                           outChunkStreams := Map.empty,
                           inBytes := 0,
                           inMessages := Some im,
                           inChunkSize := DEFAULT_CHUNK_SIZE,
                           inWindowSize := DEFAULT_WINDOW_SIZE,
                           inChunkStreams := Map.empty,
                           responses := Map.empty,
                           lastTransactionId := 0,
                           connectionId := [] \<rparr>, h5))))"

definition NewClient ::
  "string \<Rightarrow> heap \<Rightarrow> panic + (('r, 'o, 'i, 'x) Client \<times> heap)" where
  "NewClient u h = Reset (zero_Client u) h"

definition IsAlive :: "('r, 'o, 'i, 'x) Client \<Rightarrow> bool" where
  "IsAlive c = (if connected c \<noteq> True then False else True)"

definition RegisterExternalHandler ::
  "string \<Rightarrow> 'x \<Rightarrow> ('r, 'o, 'i, 'x) Client \<Rightarrow> ('r, 'o, 'i, 'x) Client" where
  "RegisterExternalHandler name fn c =
     c\<lparr>amfExternalHandlers := (amfExternalHandlers c)(name \<mapsto> fn)\<rparr>"

text \<open>\<open>Disconnect\<close> is \<open>Reset\<close> followed by a debug log line.\<close>

definition Disconnect ::
  "('r, 'o, 'i, 'x) Client \<Rightarrow> heap \<Rightarrow> panic + (('r, 'o, 'i, 'x) Client \<times> heap)" where
  "Disconnect c h = Reset c h"

text \<open>The two fields of the parsed URL that \<open>Connect\<close> reads.\<close>

record parsed_url =
  Scheme :: string
  Host :: string

text \<open>
  The \<open>switch url.Scheme\<close> of \<open>Connect\<close>. What the network does is a parameter:
  \<open>net_DialTimeout host\<close> and \<open>tls_Handshake conn\<close> answer \<open>None\<close> for success or
  the error. In the \<open>rtmp\<close> case the result of the dial is assigned to \<open>c.conn\<close>
  directly, so a failed dial leaves nil there; in the \<open>rtmps\<close> case \<open>c.conn\<close> is
  assigned only after the TLS handshake, and the TLS connection wraps the dialled
  socket, so it has the socket's handle. The left summand is the early return with the
  error and the state reached.
\<close>

definition Connect_dial ::
  "(string \<Rightarrow> error option) \<Rightarrow> (nat \<Rightarrow> error option) \<Rightarrow> parsed_url \<Rightarrow>
   ('r, 'o, 'i, 'x) Client \<Rightarrow> heap \<Rightarrow>
   (error \<times> ('r, 'o, 'i, 'x) Client \<times> heap) + (('r, 'o, 'i, 'x) Client \<times> heap)" where
  "Connect_dial net_DialTimeout tls_Handshake u c h =
     (if Scheme u = ''rtmp'' then
        (case net_DialTimeout (Host u) of
           Some e \<Rightarrow> Inl (e, c\<lparr>conn := None\<rparr>, h)
         | None \<Rightarrow> (let (k, h1) = new_conn h in Inr (c\<lparr>conn := Some k\<rparr>, h1)))
      else if Scheme u = ''rtmps'' then
        (case net_DialTimeout (Host u) of
           Some e \<Rightarrow> Inl (e, c, h)
         | None \<Rightarrow>
             (let (nc, h1) = new_conn h in
              case tls_Handshake nc of
                Some e \<Rightarrow> Inl (e, c, h1)
              | None \<Rightarrow> Inr (c\<lparr>conn := Some nc\<rparr>, h1)))
      else Inl (Unsupported_scheme (Scheme u), c, h))"

text \<open>
  \<open>Connect\<close>. The methods \<open>c.handshake()\<close> and \<open>c.connect()\<close> are defined outside the
  two files and are parameters: each takes the client and returns its result with the
  client as it leaves it. The three \<open>go\<close> statements start the receive, send and route
  loops, which run beside the caller and are not part of this sequential function. The
  result is the returned error (\<open>None\<close> for nil), the client and the store.
\<close>

definition Connect ::
  "(string \<Rightarrow> error + parsed_url) \<Rightarrow> (string \<Rightarrow> error option) \<Rightarrow> (nat \<Rightarrow> error option) \<Rightarrow>
   (('r, 'o, 'i, 'x) Client \<Rightarrow> error option \<times> ('r, 'o, 'i, 'x) Client) \<Rightarrow>
   (('r, 'o, 'i, 'x) Client \<Rightarrow> (error + string) \<times> ('r, 'o, 'i, 'x) Client) \<Rightarrow>
   ('r, 'o, 'i, 'x) Client \<Rightarrow> heap \<Rightarrow> error option \<times> ('r, 'o, 'i, 'x) Client \<times> heap" where
  "Connect url_Parse net_DialTimeout tls_Handshake handshake connect c h =
     (case url_Parse (url c) of
        Inl e \<Rightarrow> (Some e, c, h)
      | Inr u \<Rightarrow>
          (case Connect_dial net_DialTimeout tls_Handshake u c h of
             Inl (e, c1, h1) \<Rightarrow> (Some e, c1, h1)
           | Inr (c1, h1) \<Rightarrow>
               (case handshake c1 of
                  (Some e, c2) \<Rightarrow> (Some (Could_not_complete_handshake e), c2, h1)
                | (None, c2) \<Rightarrow>
                    (case connect c2 of
                       (Inl e, c3) \<Rightarrow> (Some (Could_not_complete_connect e), c3, h1)
                     | (Inr cid, c3) \<Rightarrow>
                         (None, c3\<lparr>connected := True, connectionId := cid\<rparr>, h1)))))"

subsection \<open>The transport wrapper\<close>

text \<open>
  \<open>Read\<close> and \<open>Write\<close>. The transport is a parameter: \<open>conn_Read k p\<close> gives the
  buffer as filled, the count \<open>n\<close> and the error; \<open>conn_Write k p\<close> the count and the
  error. \<open>n\<close> is a Go \<open>int\<close>, and \<open>uint32(n)\<close> keeps its low 32 bits whether
  \<open>int\<close> has 32 or 64 bits. A method call on the nil \<open>c.conn\<close> panics.
\<close>

definition Read ::
  "(nat \<Rightarrow> uint8 list \<Rightarrow> uint8 list \<times> int \<times> error option) \<Rightarrow> uint8 list \<Rightarrow>
   ('r, 'o, 'i, 'x) Client \<Rightarrow>
   panic + ((uint8 list \<times> int \<times> error option) \<times> ('r, 'o, 'i, 'x) Client)" where
  "Read conn_Read p c =
     (case conn c of
        None \<Rightarrow> Inl Nil_pointer_dereference
      | Some k \<Rightarrow>
          (let (p', n, err) = conn_Read k p
           in Inr ((p', n, err), c\<lparr>inBytes := inBytes c + word_of_int n\<rparr>)))"

definition Write ::
  "(nat \<Rightarrow> uint8 list \<Rightarrow> int \<times> error option) \<Rightarrow> uint8 list \<Rightarrow>
   ('r, 'o, 'i, 'x) Client \<Rightarrow> panic + ((int \<times> error option) \<times> ('r, 'o, 'i, 'x) Client)" where
  "Write conn_Write p c =
     (case conn c of
        None \<Rightarrow> Inl Nil_pointer_dereference
      | Some k \<Rightarrow>
          (let (n, err) = conn_Write k p
           in Inr ((n, err), c\<lparr>outBytes := outBytes c + word_of_int n\<rparr>)))"

subsection \<open>Messages\<close>

text \<open>Modelled from the spec: the \<open>Message\<close> struct is declared outside the two
  files; the fields are those of the spec's data model, under the names the code uses
  for the three it reads (\<open>ChunkStreamId\<close>, \<open>Type\<close>, \<open>TransactionId\<close>).\<close>

record Message =
  ChunkStreamId :: uint32
  Type :: uint8
  Timestamp :: uint32
  StreamId :: uint32
  Payload :: "uint8 list"
  TransactionId :: uint32

subsection \<open>SendMessage and Call\<close>



text \<open>
  What reaches \<open>Call\<close> from outside, in the order it happens: either the message is
  never taken from the outbound queue, or it is taken and then a sequence of events
  follows. \<open>Tick\<close> and \<open>Timeout\<close> are the two cases of the \<open>select\<close>, a receive from
  \<open>ticker.C\<close> and from the \<open>time.After\<close> channel; \<open>Stored k v\<close> is another goroutine
  executing \<open>c.responses[k] = v\<close> between two of them.
\<close>

datatype 'r call_event = Tick | Timeout | Stored uint32 "'r option"



text \<open>
  What the caller of \<open>Call\<close> sees: the two returned values, or that \<open>Call\<close> is still
  inside \<open>SendMessage\<close>, or that it is still in the \<open>select\<close> when the events given
  are used up, or a panic.
\<close>

datatype 'r call_result =
    Returned "'r option" "error option"
  | Waits_in_SendMessage
  | Waits_in_select
  | Call_panics panic

text \<open>
  The \<open>for { select { ... } }\<close> of \<open>Call\<close>. On a tick the table is read with
  \<open>GetResponse\<close> and a ready response is returned with a nil error; on the timeout the
  named result \<open>response\<close>, which is still nil, is returned with
  \<open>ErrResponseTimeout\<close>.
\<close>

fun Call_select ::
  "uint32 \<Rightarrow> 'r call_event list \<Rightarrow> ('r, 'o, 'i, 'x) Client \<Rightarrow>
   'r call_result \<times> ('r, 'o, 'i, 'x) Client" where
  "Call_select tid [] c = (Waits_in_select, c)"
| "Call_select tid (Stored k v # es) c =
     Call_select tid es (c\<lparr>responses := (responses c)(k \<mapsto> v)\<rparr>)"
| "Call_select tid (Tick # es) c =
     (case GetResponse tid c of
        ((res, True), c1) \<Rightarrow> (Returned res None, c1)
      | ((res, False), c1) \<Rightarrow> Call_select tid es c1)"
| "Call_select tid (Timeout # es) c = (Returned None (Some ErrResponseTimeout), c)"



definition holds_response :: "(uint32 \<rightharpoonup> 'r option) \<Rightarrow> uint32 \<Rightarrow> bool" where
  "holds_response m tid = (case m tid of Some (Some r) \<Rightarrow> True | _ \<Rightarrow> False)"

subsection \<open>The router\<close>

text \<open>Modelled from the spec: the constant \<open>CHUNK_STREAM_ID_PROTOCOL\<close> is declared
  outside the two files; the spec gives 2. \<open>CHUNK_STREAM_ID_COMMAND\<close> has no value in
  the spec and is a parameter of the router.\<close>

definition CHUNK_STREAM_ID_PROTOCOL :: uint32 where
  "CHUNK_STREAM_ID_PROTOCOL = 2"

text \<open>The log lines of the router, which are all that its default branch and its
  decode-failure branch do.\<close>

datatype log_line =
    Trace_received_message "Message option"
  | Trace_channel_closed_exiting
  | Warn_discarding_message_on_unknown_chunk_stream uint32 Message
  | Error_unable_to_decode uint8 uint32 error

text \<open>
  client\_route.go uses three fields of the receiver that the struct declaration in
  client.go does not have: \<open>c.dec\<close>, \<open>c.results\<close> and \<open>c.resultsMutex\<close>; as
  they stand the two files do not build together. The router is read here with the
  fields added to the struct and nothing else changed, so its view of the receiver is
  the declared struct together with a \<open>results\<close> map. No function of the two files
  makes that map: \<open>Reset\<close> and \<open>NewClient\<close> make \<open>responses\<close>, \<open>outChunkStreams\<close>
  and \<open>inChunkStreams\<close> only. A map that was never made is nil, which is \<open>None\<close>
  here, and a store into a nil map panics. The decoder \<open>c.dec\<close> is inside the
  \<open>DecodeResult\<close> parameter.
\<close>

record ('res, 'r, 'o, 'i, 'x) routed =
  client :: "('r, 'o, 'i, 'x) Client"
  results :: "(uint32 \<rightharpoonup> 'res) option"

text \<open>
  \<open>routeCommandMessage\<close>. \<open>msg.DecodeResult\<close> and the conversion
  \<open>uint32(result.TransactionId)\<close> of a type declared elsewhere are parameters. The
  result is the panic, if any, the state and the log lines.
\<close>

definition routeCommandMessage ::
  "(Message \<Rightarrow> error + 'res) \<Rightarrow> ('res \<Rightarrow> uint32) \<Rightarrow> Message \<Rightarrow>
   ('res, 'r, 'o, 'i, 'x) routed \<Rightarrow>
   panic option \<times> ('res, 'r, 'o, 'i, 'x) routed \<times> log_line list" where
  "routeCommandMessage DecodeResult tid_of msg st =
     (case DecodeResult msg of
        Inl err \<Rightarrow> (None, st, [Error_unable_to_decode (Type msg) (ChunkStreamId msg) err])
      | Inr result \<Rightarrow>
          (case results st of
             None \<Rightarrow> (Some Assignment_to_entry_in_nil_map, st, [])
           | Some m \<Rightarrow> (None, st\<lparr>results := Some (m(tid_of result \<mapsto> result))\<rparr>, [])))"

text \<open>The \<open>switch msg.ChunkStreamId\<close> of \<open>routeLoop\<close>; \<open>handleProtocolMessage\<close> is
  defined outside the two files and is a parameter.\<close>

definition routeLoop_switch ::
  "uint32 \<Rightarrow> (Message \<Rightarrow> ('res, 'r, 'o, 'i, 'x) routed \<Rightarrow> ('res, 'r, 'o, 'i, 'x) routed) \<Rightarrow>
   (Message \<Rightarrow> error + 'res) \<Rightarrow> ('res \<Rightarrow> uint32) \<Rightarrow> Message \<Rightarrow>
   ('res, 'r, 'o, 'i, 'x) routed \<Rightarrow>
   panic option \<times> ('res, 'r, 'o, 'i, 'x) routed \<times> log_line list" where
  "routeLoop_switch CHUNK_STREAM_ID_COMMAND handleProtocolMessage DecodeResult tid_of msg st =
     (if ChunkStreamId msg = CHUNK_STREAM_ID_PROTOCOL then
        (None, handleProtocolMessage msg st, [])
      else if ChunkStreamId msg = CHUNK_STREAM_ID_COMMAND then
        routeCommandMessage DecodeResult tid_of msg st
      else
        (None, st,
         [Warn_discarding_message_on_unknown_chunk_stream (ChunkStreamId msg) msg]))"

text \<open>
  \<open>routeLoop\<close> on the messages that the inbound queue delivers before it is closed:
  each is traced and dispatched in order; the receive that finds the queue closed traces
  a nil message and returns; a panic ends the loop where it happens. (On a queue that
  is never closed the Go loop waits for ever; the list is the case where it is closed.)
\<close>

fun routeLoop ::
  "uint32 \<Rightarrow> (Message \<Rightarrow> ('res, 'r, 'o, 'i, 'x) routed \<Rightarrow> ('res, 'r, 'o, 'i, 'x) routed) \<Rightarrow>
   (Message \<Rightarrow> error + 'res) \<Rightarrow> ('res \<Rightarrow> uint32) \<Rightarrow> Message list \<Rightarrow>
   ('res, 'r, 'o, 'i, 'x) routed \<Rightarrow>
   panic option \<times> ('res, 'r, 'o, 'i, 'x) routed \<times> log_line list" where
  "routeLoop cmd hp dr tid_of [] st =
     (None, st, [Trace_received_message None, Trace_channel_closed_exiting])"
| "routeLoop cmd hp dr tid_of (msg # msgs) st =
     (case routeLoop_switch cmd hp dr tid_of msg st of
        (Some p, st1, l1) \<Rightarrow> (Some p, st1, Trace_received_message (Some msg) # l1)
      | (None, st1, l1) \<Rightarrow>
          (let (p, st2, l2) = routeLoop cmd hp dr tid_of msgs st1
           in (p, st2, Trace_received_message (Some msg) # l1 @ l2)))"

subsection \<open>Well-formed handles\<close>

text \<open>
  What holds of a client and the store between two method calls: the transport handle,
  when there is one, has been dialled; each queue handle, when there is one, is a channel
  that has been made and not closed; and the two queues are different channels. Only
  \<open>Reset\<close> closes channels, and it puts two new ones in their place.
\<close>

definition handles_ok :: "('r, 'o, 'i, 'x) Client \<Rightarrow> heap \<Rightarrow> bool" where
  "handles_ok c h =
     ((case conn c of None \<Rightarrow> True | Some k \<Rightarrow> k < length (conns h)) \<and>
      (case outMessages c of None \<Rightarrow> True
         | Some a \<Rightarrow> a < length (chans h) \<and> \<not> chans h ! a) \<and>
      (case inMessages c of None \<Rightarrow> True
         | Some b \<Rightarrow> b < length (chans h) \<and> \<not> chans h ! b) \<and>
      (outMessages c = None \<or> outMessages c \<noteq> inMessages c))"

text \<open>The assignments of \<open>Reset\<close> when the outbound queue it makes has handle \<open>n\<close>,
  named for the proofs below.\<close>

definition Reset_fields :: "nat \<Rightarrow> ('r, 'o, 'i, 'x) Client \<Rightarrow> ('r, 'o, 'i, 'x) Client" where
  "Reset_fields n c =
     c\<lparr> connected := False, outBytes := 0, outMessages := Some n,
        outChunkSize := DEFAULT_CHUNK_SIZE, outWindowSize := DEFAULT_WINDOW_SIZE,
        outChunkStreams := Map.empty, inBytes := 0, inMessages := Some (Suc n),
        inChunkSize := DEFAULT_CHUNK_SIZE, inWindowSize := DEFAULT_WINDOW_SIZE,
        inChunkStreams := Map.empty, responses := Map.empty,
        lastTransactionId := 0, connectionId := [] \<rparr>"

section \<open>Properties\<close>

subsection \<open>Retrieval\<close>

lemma GetResponse_present:
  "responses c tid = Some (Some r) \<Longrightarrow>
     GetResponse tid c = ((Some r, True), c\<lparr>responses := (responses c)(tid := None)\<rparr>)"
  by (simp add: GetResponse_def)

lemma GetResponse_absent:
  "responses c tid = None \<or> responses c tid = Some None \<Longrightarrow>
     GetResponse tid c = ((None, False), c)"
  by (auto simp: GetResponse_def)

text \<open>
  C4. Retrieval is a plain function of the table (it never waits) and delivers at most
  once per id: when a response \<open>r\<close> is stored for \<open>tid\<close>, the first retrieval returns
  \<open>r\<close> with \<open>ready = true\<close> and removes the entry, and a second retrieval right after
  it returns nil with \<open>ready = false\<close>; when nothing is stored for \<open>tid\<close> the result is
  nil with \<open>ready = false\<close>.
\<close>

theorem GetResponse_at_most_once:
  "(responses c tid = Some (Some r) \<longrightarrow>
      fst (GetResponse tid c) = (Some r, True) \<and>
      responses (snd (GetResponse tid c)) = (responses c)(tid := None) \<and>
      fst (GetResponse tid (snd (GetResponse tid c))) = (None, False)) \<and>
   (responses c tid = None \<or> responses c tid = Some None \<longrightarrow>
      fst (GetResponse tid c) = (None, False))"
  by (auto simp: GetResponse_def)

theorem GetResponse_at_most_once_witness:
  "fst (GetResponse 7 ((zero_Client ''rtmp://h/app'' :: (nat, unit, unit, unit) Client)
          \<lparr>responses := [7 \<mapsto> Some 42]\<rparr>)) = (Some 42, True) \<and>
   fst (GetResponse 7 (snd (GetResponse 7
          ((zero_Client ''rtmp://h/app'' :: (nat, unit, unit, unit) Client)
          \<lparr>responses := [7 \<mapsto> Some 42]\<rparr>)))) = (None, False) \<and>
   fst (GetResponse 8 ((zero_Client ''rtmp://h/app'' :: (nat, unit, unit, unit) Client)
          \<lparr>responses := [7 \<mapsto> Some 42]\<rparr>)) = (None, False)"
  using GetResponse_at_most_once
    [of "(zero_Client ''rtmp://h/app'' :: (nat, unit, unit, unit) Client)
           \<lparr>responses := [7 \<mapsto> Some 42]\<rparr>" 7 42]
    GetResponse_at_most_once
    [of "(zero_Client ''rtmp://h/app'' :: (nat, unit, unit, unit) Client)
           \<lparr>responses := [7 \<mapsto> Some 42]\<rparr>" 8 42]
  by (simp add: zero_Client_def)

text \<open>
  C9. A retrieval for an id with no stored response (the key is missing, or bound to
  nil) returns the not-ready result and leaves the whole client, and so every entry of
  the pending-response table, as it was.
\<close>

theorem GetResponse_not_ready_frame:
  "responses c tid = None \<or> responses c tid = Some None \<Longrightarrow>
     GetResponse tid c = ((None, False), c) \<and>
     responses (snd (GetResponse tid c)) = responses c"
  by (auto simp: GetResponse_def)

theorem GetResponse_not_ready_frame_witness:
  "GetResponse 8 ((zero_Client ''rtmp://h/app'' :: (nat, unit, unit, unit) Client)
          \<lparr>responses := [7 \<mapsto> Some 42]\<rparr>) =
     ((None, False), (zero_Client ''rtmp://h/app'')\<lparr>responses := [7 \<mapsto> Some 42]\<rparr>) \<and>
   responses (snd (GetResponse 8
          ((zero_Client ''rtmp://h/app'' :: (nat, unit, unit, unit) Client)
          \<lparr>responses := [7 \<mapsto> Some 42]\<rparr>))) = [7 \<mapsto> Some 42]"
  using GetResponse_not_ready_frame
    [of "(zero_Client ''rtmp://h/app'' :: (nat, unit, unit, unit) Client)
           \<lparr>responses := [7 \<mapsto> Some 42]\<rparr>" 8]
  by (simp add: zero_Client_def)

subsection \<open>A new client on the empty store\<close>

lemma NewClient_empty_heap:
  "NewClient u \<lparr>chans = [], conns = []\<rparr> =
     Inr ((zero_Client u)
            \<lparr>outMessages := Some 0, outChunkSize := DEFAULT_CHUNK_SIZE,
             outWindowSize := DEFAULT_WINDOW_SIZE, inMessages := Some 1,
             inChunkSize := DEFAULT_CHUNK_SIZE, inWindowSize := DEFAULT_WINDOW_SIZE\<rparr>,
          \<lparr>chans = [False, False], conns = []\<rparr>)"
  by (simp add: NewClient_def Reset_def close_if_not_nil_def make_chan_def zero_Client_def)

subsection \<open>Transaction ids\<close>

lemma NextTransactionId_times_Suc:
  "NextTransactionId_times (Suc n) c =
     ((lastTransactionId c + 1) #
        fst (NextTransactionId_times n (c\<lparr>lastTransactionId := lastTransactionId c + 1\<rparr>)),
      snd (NextTransactionId_times n (c\<lparr>lastTransactionId := lastTransactionId c + 1\<rparr>)))"
  by (simp add: NextTransactionId_def split: prod.splits)

lemma NextTransactionId_times_length:
  "length (fst (NextTransactionId_times n c)) = n"
  by (induction n arbitrary: c)
     (simp_all add: NextTransactionId_times_Suc del: NextTransactionId_times.simps(2))

lemma NextTransactionId_times_nth:
  "i < n \<Longrightarrow> fst (NextTransactionId_times n c) ! i = lastTransactionId c + of_nat (Suc i)"
proof (induction n arbitrary: c i)
  case 0
  then show ?case by simp
next
  case (Suc n)
  show ?case
  proof (cases i)
    case 0
    then show ?thesis by (simp add: NextTransactionId_times_Suc del: NextTransactionId_times.simps(2))
  next
    case (Suc j)
    with Suc.prems have "j < n" by simp
    from Suc.IH [OF this, of "c\<lparr>lastTransactionId := lastTransactionId c + 1\<rparr>"] Suc
    show ?thesis by (simp add: NextTransactionId_times_Suc add.assoc del: NextTransactionId_times.simps(2))
  qed
qed

lemma NextTransactionId_times_last:
  "lastTransactionId (snd (NextTransactionId_times n c)) = lastTransactionId c + of_nat n"
  by (induction n arbitrary: c)
     (simp_all add: NextTransactionId_times_Suc add.assoc del: NextTransactionId_times.simps(2))





subsection \<open>Reset, Disconnect and NewClient\<close>

lemma Reset_effect:
  assumes "handles_ok c h"
  shows "\<exists>h1. Reset c h = Inr (Reset_fields (length (chans h)) c, h1) \<and>
           length (chans h1) = length (chans h) + 2 \<and>
           \<not> chans h1 ! length (chans h) \<and> \<not> chans h1 ! Suc (length (chans h)) \<and>
           (\<forall>a. outMessages c = Some a \<longrightarrow> chans h1 ! a) \<and>
           (\<forall>b. inMessages c = Some b \<longrightarrow> chans h1 ! b) \<and>
           (\<forall>a < length (chans h). chans h ! a \<longrightarrow> chans h1 ! a) \<and>
           length (conns h1) = length (conns h) \<and>
           (\<forall>k. conn c = Some k \<longrightarrow> conns h1 ! k) \<and>
           (\<forall>k < length (conns h). conns h ! k \<longrightarrow> conns h1 ! k)"
  using assms
  by (cases "conn c"; cases "outMessages c"; cases "inMessages c")
     (auto simp: handles_ok_def Reset_def close_if_not_nil_def close_chan_def make_chan_def
        conn_Close_def Reset_fields_def nth_list_update nth_append)

lemma Reset_fields_handles_ok:
  assumes "length (chans h1) = n + 2" "\<not> chans h1 ! n" "\<not> chans h1 ! Suc n"
    and "case conn c of None \<Rightarrow> True | Some k \<Rightarrow> k < length (conns h1)"
  shows "handles_ok (Reset_fields n c) h1"
  using assms by (auto simp: handles_ok_def Reset_fields_def split: option.splits)

lemma Reset_fields_twice:
  "(Reset_fields m (Reset_fields n c))
      \<lparr>outMessages := outMessages (Reset_fields n c),
       inMessages := inMessages (Reset_fields n c)\<rparr> = Reset_fields n c"
  by (simp add: Reset_fields_def)

lemma handles_ok_zero_Client: "handles_ok (zero_Client u) h"
  by (simp add: handles_ok_def zero_Client_def)

lemma Reset_Inr_counter:
  "Reset c h = Inr (c', h') \<Longrightarrow> lastTransactionId c' = 0"
  by (auto simp: Reset_def Let_def make_chan_def split: sum.splits prod.splits)

lemma NewClient_handles_ok:
  "\<exists>c1 h1. NewClient u h = Inr (c1 :: ('r, 'o, 'i, 'x) Client, h1) \<and> handles_ok c1 h1"
proof -
  let ?z = "zero_Client u :: ('r, 'o, 'i, 'x) Client"
  have "handles_ok ?z h" by (rule handles_ok_zero_Client)
  from Reset_effect [OF this] obtain h1 where
    r: "Reset ?z h = Inr (Reset_fields (length (chans h)) ?z, h1)"
    and l: "length (chans h1) = length (chans h) + 2"
    and o: "\<not> chans h1 ! length (chans h)" "\<not> chans h1 ! Suc (length (chans h))"
    by blast
  have "case conn ?z of None \<Rightarrow> True | Some k \<Rightarrow> k < length (conns h1)"
    by (simp add: zero_Client_def)
  then have "handles_ok (Reset_fields (length (chans h)) ?z) h1"
    using l o by (rule Reset_fields_handles_ok [rotated 3])
  with r show ?thesis by (auto simp: NewClient_def)
qed

text \<open>
  C7. On a client whose handles are well formed, \<open>Reset\<close> and \<open>Disconnect\<close> return
  without a panic and give the same result: the transport, when there is one, is closed;
  the two message queues the client held are closed; the connected flag is false; the
  three maps (outbound chunk streams, inbound chunk streams, responses) are empty; the
  byte counters and the transaction-id counter are zero; the connection id is empty; the
  chunk and window sizes are the defaults; and the client holds two new open queues.
  Calling \<open>Reset\<close> or \<open>Disconnect\<close> again on the result returns without a panic and
  leaves every field as it was apart from the two queue handles, which are again two new
  open queues; no connection is made, and a closed one stays closed.
\<close>

theorem Reset_Disconnect_clear_and_repeat:
  assumes "handles_ok c h"
  shows "\<exists>c1 h1 c2 h2.
     Reset c h = Inr (c1, h1) \<and> Disconnect c h = Inr (c1, h1) \<and>
     (\<forall>k. conn c = Some k \<longrightarrow> conns h1 ! k) \<and>
     (\<forall>a. outMessages c = Some a \<longrightarrow> chans h1 ! a) \<and>
     (\<forall>b. inMessages c = Some b \<longrightarrow> chans h1 ! b) \<and>
     \<not> connected c1 \<and>
     outChunkStreams c1 = Map.empty \<and> inChunkStreams c1 = Map.empty \<and>
     responses c1 = Map.empty \<and>
     outBytes c1 = 0 \<and> inBytes c1 = 0 \<and> lastTransactionId c1 = 0 \<and>
     connectionId c1 = [] \<and>
     outChunkSize c1 = DEFAULT_CHUNK_SIZE \<and> inChunkSize c1 = DEFAULT_CHUNK_SIZE \<and>
     outWindowSize c1 = DEFAULT_WINDOW_SIZE \<and> inWindowSize c1 = DEFAULT_WINDOW_SIZE \<and>
     outMessages c1 = Some (length (chans h)) \<and>
     inMessages c1 = Some (Suc (length (chans h))) \<and>
     handles_ok c1 h1 \<and>
     Reset c1 h1 = Inr (c2, h2) \<and> Disconnect c1 h1 = Inr (c2, h2) \<and>
     c2\<lparr>outMessages := outMessages c1, inMessages := inMessages c1\<rparr> = c1 \<and>
     (\<forall>k < length (conns h1). conns h1 ! k \<longrightarrow> conns h2 ! k) \<and>
     length (conns h2) = length (conns h1) \<and>
     handles_ok c2 h2"
proof -
  let ?n = "length (chans h)"
  let ?c1 = "Reset_fields ?n c"
  from Reset_effect [OF assms] obtain h1 where
    r1: "Reset c h = Inr (?c1, h1)"
    and l1: "length (chans h1) = ?n + 2"
    and o1: "\<not> chans h1 ! ?n" "\<not> chans h1 ! Suc ?n"
    and cl1: "\<forall>a. outMessages c = Some a \<longrightarrow> chans h1 ! a"
             "\<forall>b. inMessages c = Some b \<longrightarrow> chans h1 ! b"
    and cn1: "length (conns h1) = length (conns h)" "\<forall>k. conn c = Some k \<longrightarrow> conns h1 ! k"
    by blast
  have "case conn c of None \<Rightarrow> True | Some k \<Rightarrow> k < length (conns h1)"
    using assms cn1(1) by (simp add: handles_ok_def split: option.splits)
  then have ok1: "handles_ok ?c1 h1"
    using l1 o1 by (rule Reset_fields_handles_ok [rotated 3])
  let ?m = "length (chans h1)"
  let ?c2 = "Reset_fields ?m ?c1"
  from Reset_effect [OF ok1] obtain h2 where
    r2: "Reset ?c1 h1 = Inr (?c2, h2)"
    and l2: "length (chans h2) = ?m + 2"
    and o2: "\<not> chans h2 ! ?m" "\<not> chans h2 ! Suc ?m"
    and cn2: "length (conns h2) = length (conns h1)"
             "\<forall>k < length (conns h1). conns h1 ! k \<longrightarrow> conns h2 ! k"
    by blast
  have "case conn ?c1 of None \<Rightarrow> True | Some k \<Rightarrow> k < length (conns h2)"
    using ok1 cn2(1) by (simp add: handles_ok_def split: option.splits)
  then have ok2: "handles_ok ?c2 h2"
    using l2 o2 by (rule Reset_fields_handles_ok [rotated 3])
  have same: "?c2\<lparr>outMessages := outMessages ?c1, inMessages := inMessages ?c1\<rparr> = ?c1"
    by (rule Reset_fields_twice)
  have fields: "\<not> connected ?c1" "outChunkStreams ?c1 = Map.empty"
    "inChunkStreams ?c1 = Map.empty" "responses ?c1 = Map.empty"
    "outBytes ?c1 = 0" "inBytes ?c1 = 0" "lastTransactionId ?c1 = 0" "connectionId ?c1 = []"
    "outChunkSize ?c1 = DEFAULT_CHUNK_SIZE" "inChunkSize ?c1 = DEFAULT_CHUNK_SIZE"
    "outWindowSize ?c1 = DEFAULT_WINDOW_SIZE" "inWindowSize ?c1 = DEFAULT_WINDOW_SIZE"
    "outMessages ?c1 = Some ?n" "inMessages ?c1 = Some (Suc ?n)"
    by (simp_all add: Reset_fields_def)
  show ?thesis
    apply (rule exI [of _ ?c1], rule exI [of _ h1], rule exI [of _ ?c2], rule exI [of _ h2])
    using r1 r2 cl1 cn1 cn2 ok1 ok2 same fields
    by (simp add: Disconnect_def)
qed

theorem Reset_Disconnect_clear_and_repeat_witness:
  "handles_ok
     ((zero_Client ''rtmp://h/app'' :: (nat, unit, unit, unit) Client)
        \<lparr>connected := True, conn := Some 0, outMessages := Some 0, inMessages := Some 1,
         responses := [7 \<mapsto> Some 42], lastTransactionId := 9\<rparr>)
     \<lparr>chans = [False, False], conns = [False]\<rparr> \<and>
   (\<exists>c1 h1 c2 h2.
      Reset ((zero_Client ''rtmp://h/app'' :: (nat, unit, unit, unit) Client)
        \<lparr>connected := True, conn := Some 0, outMessages := Some 0, inMessages := Some 1,
         responses := [7 \<mapsto> Some 42], lastTransactionId := 9\<rparr>)
        \<lparr>chans = [False, False], conns = [False]\<rparr> = Inr (c1, h1) \<and>
      conns h1 ! 0 \<and> chans h1 ! 0 \<and> chans h1 ! 1 \<and>
      \<not> connected c1 \<and> responses c1 = Map.empty \<and> lastTransactionId c1 = 0 \<and>
      outMessages c1 = Some 2 \<and> inMessages c1 = Some 3 \<and>
      Reset c1 h1 = Inr (c2, h2) \<and>
      c2\<lparr>outMessages := outMessages c1, inMessages := inMessages c1\<rparr> = c1)"
proof -
  let ?c = "(zero_Client ''rtmp://h/app'' :: (nat, unit, unit, unit) Client)
        \<lparr>connected := True, conn := Some 0, outMessages := Some 0, inMessages := Some 1,
         responses := [7 \<mapsto> Some 42], lastTransactionId := 9\<rparr>"
  let ?h = "\<lparr>chans = [False, False], conns = [False]\<rparr>"
  have ok: "handles_ok ?c ?h"
    by (simp add: handles_ok_def zero_Client_def)
  from Reset_Disconnect_clear_and_repeat [OF ok] obtain c1 h1 c2 h2 where
    "Reset ?c ?h = Inr (c1, h1)"
    "\<forall>k. conn ?c = Some k \<longrightarrow> conns h1 ! k"
    "\<forall>a. outMessages ?c = Some a \<longrightarrow> chans h1 ! a"
    "\<forall>b. inMessages ?c = Some b \<longrightarrow> chans h1 ! b"
    "\<not> connected c1" "responses c1 = Map.empty" "lastTransactionId c1 = 0"
    "outMessages c1 = Some (length (chans ?h))"
    "inMessages c1 = Some (Suc (length (chans ?h)))"
    "Reset c1 h1 = Inr (c2, h2)"
    "c2\<lparr>outMessages := outMessages c1, inMessages := inMessages c1\<rparr> = c1"
    by blast
  then have "Reset ?c ?h = Inr (c1, h1) \<and>
      conns h1 ! 0 \<and> chans h1 ! 0 \<and> chans h1 ! 1 \<and>
      \<not> connected c1 \<and> responses c1 = Map.empty \<and> lastTransactionId c1 = 0 \<and>
      outMessages c1 = Some 2 \<and> inMessages c1 = Some 3 \<and>
      Reset c1 h1 = Inr (c2, h2) \<and>
      c2\<lparr>outMessages := outMessages c1, inMessages := inMessages c1\<rparr> = c1"
    by (simp add: zero_Client_def)
  then show ?thesis using ok by blast
qed

text \<open>
  C8. \<open>NewClient\<close> returns a client whose transaction-id counter is zero, and so does
  every \<open>Reset\<close> that returns; the next allocation on such a client returns 1. So a
  \<open>Reset\<close> restarts the sequence: after any number of allocations on a new client and a
  \<open>Reset\<close>, the next id is one that the client has already returned.
\<close>

theorem counter_restarts_at_zero:
  "(\<exists>c0 h0. NewClient u h = Inr (c0 :: ('r, 'o, 'i, 'x) Client, h0) \<and>
       lastTransactionId c0 = 0 \<and> fst (NextTransactionId c0) = 1) \<and>
   (Reset (c :: ('r, 'o, 'i, 'x) Client) g = Inr (c', g') \<longrightarrow>
       lastTransactionId c' = 0 \<and> fst (NextTransactionId c') = 1) \<and>
   (NewClient u h = Inr (c1 :: ('r, 'o, 'i, 'x) Client, h1) \<longrightarrow>
    Reset (snd (NextTransactionId_times (Suc n) c1)) h1 = Inr (c2, h2) \<longrightarrow>
       fst (NextTransactionId c2) \<in> set (fst (NextTransactionId_times (Suc n) c1)))"
proof -
  have "handles_ok (zero_Client u :: ('r, 'o, 'i, 'x) Client) h"
    by (rule handles_ok_zero_Client)
  from Reset_effect [OF this]
  have new: "\<exists>c0 h0. NewClient u h = Inr (c0 :: ('r, 'o, 'i, 'x) Client, h0) \<and>
      lastTransactionId c0 = 0"
    by (auto simp: NewClient_def Reset_fields_def)
  have rep: "fst (NextTransactionId c2) \<in> set (fst (NextTransactionId_times (Suc n) c1))"
    if "NewClient u h = Inr (c1, h1)"
      and "Reset (snd (NextTransactionId_times (Suc n) c1)) h1 = Inr (c2, h2)"
  proof -
    from that(1) have "lastTransactionId c1 = 0"
      by (auto simp: NewClient_def dest: Reset_Inr_counter)
    then have "fst (NextTransactionId_times (Suc n) c1) ! 0 = 1"
      using NextTransactionId_times_nth [of 0 "Suc n" c1] by simp
    moreover have "fst (NextTransactionId c2) = 1"
      using Reset_Inr_counter [OF that(2)] by (simp add: NextTransactionId_def)
    ultimately show ?thesis
      using NextTransactionId_times_length [of "Suc n" c1]
      by (metis nth_mem zero_less_Suc)
  qed
  from new rep show ?thesis
    by (auto simp: NextTransactionId_def dest: Reset_Inr_counter)
qed

theorem counter_restarts_at_zero_witness:
  "NewClient ''rtmp://h/app'' \<lparr>chans = [], conns = []\<rparr> =
     Inr ((zero_Client ''rtmp://h/app'' :: (nat, unit, unit, unit) Client)
            \<lparr>outMessages := Some 0, outChunkSize := DEFAULT_CHUNK_SIZE,
             outWindowSize := DEFAULT_WINDOW_SIZE, inMessages := Some 1,
             inChunkSize := DEFAULT_CHUNK_SIZE, inWindowSize := DEFAULT_WINDOW_SIZE\<rparr>,
          \<lparr>chans = [False, False], conns = []\<rparr>) \<and>
   fst (NextTransactionId_times 2
     ((zero_Client ''rtmp://h/app'' :: (nat, unit, unit, unit) Client)
            \<lparr>outMessages := Some 0, outChunkSize := DEFAULT_CHUNK_SIZE,
             outWindowSize := DEFAULT_WINDOW_SIZE, inMessages := Some 1,
             inChunkSize := DEFAULT_CHUNK_SIZE, inWindowSize := DEFAULT_WINDOW_SIZE\<rparr>))
     = [1, 2] \<and>
   Reset (snd (NextTransactionId_times 2
     ((zero_Client ''rtmp://h/app'' :: (nat, unit, unit, unit) Client)
            \<lparr>outMessages := Some 0, outChunkSize := DEFAULT_CHUNK_SIZE,
             outWindowSize := DEFAULT_WINDOW_SIZE, inMessages := Some 1,
             inChunkSize := DEFAULT_CHUNK_SIZE, inWindowSize := DEFAULT_WINDOW_SIZE\<rparr>)))
     \<lparr>chans = [False, False], conns = []\<rparr> =
     Inr ((zero_Client ''rtmp://h/app'')
            \<lparr>outMessages := Some 2, outChunkSize := DEFAULT_CHUNK_SIZE,
             outWindowSize := DEFAULT_WINDOW_SIZE, inMessages := Some 3,
             inChunkSize := DEFAULT_CHUNK_SIZE, inWindowSize := DEFAULT_WINDOW_SIZE\<rparr>,
          \<lparr>chans = [True, True, False, False], conns = []\<rparr>) \<and>
   fst (NextTransactionId
     ((zero_Client ''rtmp://h/app'' :: (nat, unit, unit, unit) Client)
            \<lparr>outMessages := Some 2, outChunkSize := DEFAULT_CHUNK_SIZE,
             outWindowSize := DEFAULT_WINDOW_SIZE, inMessages := Some 3,
             inChunkSize := DEFAULT_CHUNK_SIZE, inWindowSize := DEFAULT_WINDOW_SIZE\<rparr>)) = 1"
proof -
  let ?u = "''rtmp://h/app''"
  let ?h = "\<lparr>chans = [], conns = []\<rparr>"
  let ?c1 = "(zero_Client ?u :: (nat, unit, unit, unit) Client)
            \<lparr>outMessages := Some 0, outChunkSize := DEFAULT_CHUNK_SIZE,
             outWindowSize := DEFAULT_WINDOW_SIZE, inMessages := Some 1,
             inChunkSize := DEFAULT_CHUNK_SIZE, inWindowSize := DEFAULT_WINDOW_SIZE\<rparr>"
  let ?h1 = "\<lparr>chans = [False, False], conns = []\<rparr>"
  let ?c2 = "(zero_Client ?u :: (nat, unit, unit, unit) Client)
            \<lparr>outMessages := Some 2, outChunkSize := DEFAULT_CHUNK_SIZE,
             outWindowSize := DEFAULT_WINDOW_SIZE, inMessages := Some 3,
             inChunkSize := DEFAULT_CHUNK_SIZE, inWindowSize := DEFAULT_WINDOW_SIZE\<rparr>"
  let ?h2 = "\<lparr>chans = [True, True, False, False], conns = []\<rparr>"
  have n: "NewClient ?u ?h = Inr (?c1, ?h1)" by (rule NewClient_empty_heap)
  have "NextTransactionId_times 2 ?c1 = NextTransactionId_times (Suc (Suc 0)) ?c1"
    by (simp only: numeral_2_eq_2)
  then have t: "NextTransactionId_times 2 ?c1 = ([1, 2], ?c1\<lparr>lastTransactionId := 2\<rparr>)"
    by (simp add: NextTransactionId_def zero_Client_def)
  have s: "snd (NextTransactionId_times 2 ?c1) = ?c1\<lparr>lastTransactionId := 2\<rparr>"
    by (simp only: t snd_conv)
  have "Reset (?c1\<lparr>lastTransactionId := 2\<rparr>) ?h1 = Inr (?c2, ?h2)"
    by (simp add: Reset_def close_if_not_nil_def close_chan_def make_chan_def
        zero_Client_def)
  then have r: "Reset (snd (NextTransactionId_times 2 ?c1)) ?h1 = Inr (?c2, ?h2)"
    by (simp only: s)
  have r': "Reset (snd (NextTransactionId_times (Suc 1) ?c1)) ?h1 = Inr (?c2, ?h2)"
    using r by (simp only: numeral_2_eq_2 One_nat_def)
  from counter_restarts_at_zero [where u = ?u and h = ?h
      and c = "snd (NextTransactionId_times 2 ?c1)" and g = ?h1 and c' = ?c2 and g' = ?h2
      and ?c1.0 = ?c1 and ?h1.0 = ?h1 and n = 1 and ?c2.0 = ?c2 and ?h2.0 = ?h2] n r r'
  have "fst (NextTransactionId ?c2) = 1" by blast
  with n t r show ?thesis by simp
qed

subsection \<open>Connect\<close>

lemma Connect_dial_Inr_iff:
  "Connect_dial D T u c h = Inr (c1, h1) \<longleftrightarrow>
     (Scheme u = ''rtmp'' \<or> Scheme u = ''rtmps'') \<and> D (Host u) = None \<and>
     (Scheme u = ''rtmps'' \<longrightarrow> T (length (conns h)) = None) \<and>
     c1 = c\<lparr>conn := Some (length (conns h))\<rparr> \<and>
     h1 = h\<lparr>conns := conns h @ [False]\<rparr>"
  by (auto simp: Connect_dial_def new_conn_def split: option.splits)

lemma Connect_dial_Inl_connected:
  "Connect_dial D T u c h = Inl (e, c1, h1) \<Longrightarrow> connected c1 = connected c"
  by (auto simp: Connect_dial_def new_conn_def split: option.splits if_splits)

lemma Connect_connected_frame:
  assumes hs: "\<And>c'. connected (snd (handshake c')) = connected c'"
    and cn: "\<And>c'. connected (snd (connect c')) = connected c'"
  shows "connected (fst (snd (Connect P D T handshake connect c h))) =
           (fst (Connect P D T handshake connect c h) = None \<or> connected c)"
proof (cases "P (url c)")
  case (Inl e)
  then show ?thesis by (simp add: Connect_def)
next
  case (Inr u)
  show ?thesis
  proof (cases "Connect_dial D T u c h")
    case (Inl x)
    then obtain e c1 h1 where x: "x = (e, c1, h1)" by (cases x) auto
    with Inl Inr Connect_dial_Inl_connected [of D T u c h e c1 h1]
    show ?thesis by (simp add: Connect_def)
  next
    case (Inr y)
    then obtain c1 h1 where y: "Connect_dial D T u c h = Inr (c1, h1)" by (cases y) auto
    then have c1: "connected c1 = connected c" by (simp add: Connect_dial_Inr_iff)
    obtain r c2 where h2: "handshake c1 = (r, c2)" by (cases "handshake c1") auto
    then have c2: "connected c2 = connected c" using hs [of c1] c1 by simp
    obtain q c3 where h3: "connect c2 = (q, c3)" by (cases "connect c2") auto
    then have c3: "connected c3 = connected c" using cn [of c2] c2 by simp
    show ?thesis
      using \<open>P (url c) = Inr u\<close> y h2 h3 c2 c3
      by (cases r; cases q) (simp_all add: Connect_def)
  qed
qed

lemma Connect_success_iff:
  "fst (Connect P D T handshake connect c h) = None \<longleftrightarrow>
     (\<exists>u. P (url c) = Inr u \<and>
        (Scheme u = ''rtmp'' \<or> Scheme u = ''rtmps'') \<and> D (Host u) = None \<and>
        (Scheme u = ''rtmps'' \<longrightarrow> T (length (conns h)) = None) \<and>
        fst (handshake (c\<lparr>conn := Some (length (conns h))\<rparr>)) = None \<and>
        (\<exists>cid. fst (connect (snd (handshake (c\<lparr>conn := Some (length (conns h))\<rparr>)))) = Inr cid))"
proof (cases "P (url c)")
  case (Inl e)
  then show ?thesis by (simp add: Connect_def)
next
  case (Inr u)
  let ?c1 = "c\<lparr>conn := Some (length (conns h))\<rparr>"
  show ?thesis
  proof (cases "Connect_dial D T u c h")
    case (Inl x)
    then have "\<not> ((Scheme u = ''rtmp'' \<or> Scheme u = ''rtmps'') \<and> D (Host u) = None \<and>
        (Scheme u = ''rtmps'' \<longrightarrow> T (length (conns h)) = None))"
      using Connect_dial_Inr_iff [of D T u c h ?c1 "h\<lparr>conns := conns h @ [False]\<rparr>"] by auto
    with Inl \<open>P (url c) = Inr u\<close> show ?thesis
      by (auto simp: Connect_def split: prod.splits)
  next
    case (Inr y)
    then obtain c1 h1 where y: "Connect_dial D T u c h = Inr (c1, h1)" by (cases y) auto
    then have d: "(Scheme u = ''rtmp'' \<or> Scheme u = ''rtmps'') \<and> D (Host u) = None \<and>
        (Scheme u = ''rtmps'' \<longrightarrow> T (length (conns h)) = None)" and c1: "c1 = ?c1"
      by (simp_all add: Connect_dial_Inr_iff)
    obtain r c2 where h2: "handshake ?c1 = (r, c2)" by (cases "handshake ?c1") auto
    obtain q c3 where h3: "connect c2 = (q, c3)" by (cases "connect c2") auto
    show ?thesis
      using \<open>P (url c) = Inr u\<close> y c1 d h2 h3
      by (cases r; cases q) (simp_all add: Connect_def)
  qed
qed

text \<open>
  C6. Take a session that is Disconnected (connected flag false), and let the two
  methods that lie outside the files, \<open>handshake\<close> and \<open>connect\<close>, leave the connected
  flag as they find it. Then after \<open>Connect\<close> the flag is true exactly when \<open>Connect\<close>
  returned no error, and \<open>Connect\<close> returns no error exactly when every step succeeded:
  the URL parsed, its scheme is \<open>rtmp\<close> or \<open>rtmps\<close>, the dial succeeded, for \<open>rtmps\<close>
  the TLS handshake succeeded, the RTMP handshake succeeded and the connect command
  returned a connection id. So a failure of any step gives an error and leaves the flag
  false.
\<close>

theorem Connect_connected_only_if_all_steps_succeed:
  assumes "\<not> connected c"
    and "\<And>c'. connected (snd (handshake c')) = connected c'"
    and "\<And>c'. connected (snd (connect c')) = connected c'"
  shows "(connected (fst (snd (Connect P D T handshake connect c h))) \<longleftrightarrow>
            fst (Connect P D T handshake connect c h) = None) \<and>
         (fst (Connect P D T handshake connect c h) = None \<longleftrightarrow>
            (\<exists>u. P (url c) = Inr u \<and>
               (Scheme u = ''rtmp'' \<or> Scheme u = ''rtmps'') \<and> D (Host u) = None \<and>
               (Scheme u = ''rtmps'' \<longrightarrow> T (length (conns h)) = None) \<and>
               fst (handshake (c\<lparr>conn := Some (length (conns h))\<rparr>)) = None \<and>
               (\<exists>cid. fst (connect (snd (handshake (c\<lparr>conn := Some (length (conns h))\<rparr>))))
                        = Inr cid)))"
  using Connect_connected_frame [of handshake connect P D T c h, OF assms(2,3)] assms(1)
    Connect_success_iff [of P D T handshake connect c h]
  by simp

theorem Connect_connected_only_if_all_steps_succeed_witness:
  "\<not> connected (zero_Client ''rtmp://h/app'' :: (nat, unit, unit, unit) Client) \<and>
   Connect (\<lambda>s. Inr \<lparr>Scheme = ''rtmp'', Host = ''h''\<rparr>) (\<lambda>host. None) (\<lambda>k. None)
      (\<lambda>c. (None, c\<lparr>inBytes := inBytes c + 3073, outBytes := outBytes c + 3073\<rparr>))
      (\<lambda>c. (Inr ''id-1'', c\<lparr>lastTransactionId := lastTransactionId c + 1\<rparr>))
      (zero_Client ''rtmp://h/app'' :: (nat, unit, unit, unit) Client)
      \<lparr>chans = [], conns = []\<rparr> =
     (None,
      (zero_Client ''rtmp://h/app'')
        \<lparr>connected := True, conn := Some 0, inBytes := 3073, outBytes := 3073,
         lastTransactionId := 1, connectionId := ''id-1''\<rparr>,
      \<lparr>chans = [], conns = [False]\<rparr>) \<and>
   Connect (\<lambda>s. Inr \<lparr>Scheme = ''rtmp'', Host = ''h''\<rparr>) (\<lambda>host. None) (\<lambda>k. None)
      (\<lambda>c. (Some (External ''EOF''), c\<lparr>outBytes := outBytes c + 1537\<rparr>))
      (\<lambda>c. (Inr ''id-1'', c\<lparr>lastTransactionId := lastTransactionId c + 1\<rparr>))
      (zero_Client ''rtmp://h/app'' :: (nat, unit, unit, unit) Client)
      \<lparr>chans = [], conns = []\<rparr> =
     (Some (Could_not_complete_handshake (External ''EOF'')),
      (zero_Client ''rtmp://h/app'')\<lparr>conn := Some 0, outBytes := 1537\<rparr>,
      \<lparr>chans = [], conns = [False]\<rparr>)"
proof -
  let ?c = "zero_Client ''rtmp://h/app'' :: (nat, unit, unit, unit) Client"
  let ?P = "\<lambda>s::string. (Inr \<lparr>Scheme = ''rtmp'', Host = ''h''\<rparr> :: error + parsed_url)"
  let ?D = "\<lambda>host::string. (None :: error option)"
  let ?T = "\<lambda>k::nat. (None :: error option)"
  let ?hs = "\<lambda>c::(nat, unit, unit, unit) Client.
      (None :: error option, c\<lparr>inBytes := inBytes c + 3073, outBytes := outBytes c + 3073\<rparr>)"
  let ?hf = "\<lambda>c::(nat, unit, unit, unit) Client.
      (Some (External ''EOF''), c\<lparr>outBytes := outBytes c + 1537\<rparr>)"
  let ?cn = "\<lambda>c::(nat, unit, unit, unit) Client.
      (Inr ''id-1'' :: error + string, c\<lparr>lastTransactionId := lastTransactionId c + 1\<rparr>)"
  let ?h = "\<lparr>chans = [], conns = []\<rparr>"
  have nc: "\<not> connected ?c" by (simp add: zero_Client_def)
  have a: "connected (fst (snd (Connect ?P ?D ?T ?hs ?cn ?c ?h))) \<longleftrightarrow>
           fst (Connect ?P ?D ?T ?hs ?cn ?c ?h) = None"
    using Connect_connected_only_if_all_steps_succeed [of ?c ?hs ?cn ?P ?D ?T ?h, OF nc] by simp
  have b: "connected (fst (snd (Connect ?P ?D ?T ?hf ?cn ?c ?h))) \<longleftrightarrow>
           fst (Connect ?P ?D ?T ?hf ?cn ?c ?h) = None"
    using Connect_connected_only_if_all_steps_succeed [of ?c ?hf ?cn ?P ?D ?T ?h, OF nc] by simp
  show ?thesis using nc a b
    by (simp add: Connect_def Connect_dial_def new_conn_def zero_Client_def)
qed

subsection \<open>The byte counters\<close>

lemma uint_plus_word_of_int:
  "uint ((x::uint32) + word_of_int n) = (uint x + n) mod 2 ^ 32"
  by (simp add: uint_word_ariths uint_word_of_int mod_add_right_eq take_bit_eq_mod)

lemma unat_plus_word_of_int:
  assumes "0 \<le> n"
  shows "unat ((x::uint32) + word_of_int n) = (unat x + nat n) mod 2 ^ 32"
proof -
  from assms have "(word_of_int n :: uint32) = of_nat (nat n)" by simp
  then show ?thesis
    by (simp add: unat_word_ariths unat_of_nat mod_add_right_eq)
qed

text \<open>
  C10. On a client with a transport, \<open>Read\<close> returns what the transport's read
  returned, count and error unchanged, and adds the count to \<open>inBytes\<close> modulo
  \<open>2^32\<close>, changing nothing else; \<open>Write\<close> does the same with the transport's write
  and \<open>outBytes\<close>.
\<close>

theorem Read_Write_count_bytes:
  assumes "conn c = Some k"
  shows "(\<exists>p' n err c'. conn_Read k p = (p', n, err) \<and>
            Read conn_Read p c = Inr ((p', n, err), c') \<and>
            c' = c\<lparr>inBytes := inBytes c + word_of_int n\<rparr> \<and>
            uint (inBytes c') = (uint (inBytes c) + n) mod 2 ^ 32 \<and>
            (0 \<le> n \<longrightarrow> unat (inBytes c') = (unat (inBytes c) + nat n) mod 2 ^ 32)) \<and>
         (\<exists>n err c'. conn_Write k p = (n, err) \<and>
            Write conn_Write p c = Inr ((n, err), c') \<and>
            c' = c\<lparr>outBytes := outBytes c + word_of_int n\<rparr> \<and>
            uint (outBytes c') = (uint (outBytes c) + n) mod 2 ^ 32 \<and>
            (0 \<le> n \<longrightarrow> unat (outBytes c') = (unat (outBytes c) + nat n) mod 2 ^ 32))"
proof
  obtain p' n err where r: "conn_Read k p = (p', n, err)" by (cases "conn_Read k p") auto
  with assms have "Read conn_Read p c = Inr ((p', n, err), c\<lparr>inBytes := inBytes c + word_of_int n\<rparr>)"
    by (simp add: Read_def)
  with r show "\<exists>p' n err c'. conn_Read k p = (p', n, err) \<and>
            Read conn_Read p c = Inr ((p', n, err), c') \<and>
            c' = c\<lparr>inBytes := inBytes c + word_of_int n\<rparr> \<and>
            uint (inBytes c') = (uint (inBytes c) + n) mod 2 ^ 32 \<and>
            (0 \<le> n \<longrightarrow> unat (inBytes c') = (unat (inBytes c) + nat n) mod 2 ^ 32)"
    by (simp add: uint_plus_word_of_int unat_plus_word_of_int)
next
  obtain n err where w: "conn_Write k p = (n, err)" by (cases "conn_Write k p") auto
  with assms have "Write conn_Write p c = Inr ((n, err), c\<lparr>outBytes := outBytes c + word_of_int n\<rparr>)"
    by (simp add: Write_def)
  with w show "\<exists>n err c'. conn_Write k p = (n, err) \<and>
            Write conn_Write p c = Inr ((n, err), c') \<and>
            c' = c\<lparr>outBytes := outBytes c + word_of_int n\<rparr> \<and>
            uint (outBytes c') = (uint (outBytes c) + n) mod 2 ^ 32 \<and>
            (0 \<le> n \<longrightarrow> unat (outBytes c') = (unat (outBytes c) + nat n) mod 2 ^ 32)"
    by (simp add: uint_plus_word_of_int unat_plus_word_of_int)
qed

theorem Read_Write_count_bytes_witness:
  "conn ((zero_Client ''rtmp://h/app'' :: (nat, unit, unit, unit) Client)
          \<lparr>conn := Some 0, inBytes := 0xFFFFFFFE, outBytes := 10\<rparr>) = Some 0 \<and>
   Read (\<lambda>k p. (replicate 5 1, 5, None)) (replicate 5 0)
        ((zero_Client ''rtmp://h/app'' :: (nat, unit, unit, unit) Client)
          \<lparr>conn := Some 0, inBytes := 0xFFFFFFFE, outBytes := 10\<rparr>) =
     Inr ((replicate 5 1, 5, None),
          (zero_Client ''rtmp://h/app'')\<lparr>conn := Some 0, inBytes := 3, outBytes := 10\<rparr>) \<and>
   Write (\<lambda>k p. (3, Some (External ''short write''))) (replicate 5 0)
        ((zero_Client ''rtmp://h/app'' :: (nat, unit, unit, unit) Client)
          \<lparr>conn := Some 0, inBytes := 0xFFFFFFFE, outBytes := 10\<rparr>) =
     Inr ((3, Some (External ''short write'')),
          (zero_Client ''rtmp://h/app'')
            \<lparr>conn := Some 0, inBytes := 0xFFFFFFFE, outBytes := 13\<rparr>)"
proof -
  let ?c = "(zero_Client ''rtmp://h/app'' :: (nat, unit, unit, unit) Client)
          \<lparr>conn := Some 0, inBytes := 0xFFFFFFFE, outBytes := 10\<rparr>"
  have k: "conn ?c = Some 0" by (simp add: zero_Client_def)
  from Read_Write_count_bytes [OF k, of "\<lambda>k p. (replicate 5 1, 5, None)" "replicate 5 0"
      "\<lambda>k p. (3, Some (External ''short write''))"]
  show ?thesis using k by (auto simp: zero_Client_def)
qed

subsection \<open>The router\<close>

lemma routeCommandMessage_client:
  "client (fst (snd (routeCommandMessage dr tid_of msg st))) = client st"
  by (simp add: routeCommandMessage_def split: sum.splits option.splits)

text \<open>
  C2 (as amended). A message whose chunk-stream-id is neither the protocol id nor the
  command id is discarded by the router: the only effect is the warning
  "discarding message on unknown chunk stream", and the state is unchanged. The router
  has no hand-off to a collaborator.
\<close>

theorem routeLoop_discards_other_chunk_streams:
  assumes "ChunkStreamId msg \<noteq> CHUNK_STREAM_ID_PROTOCOL" and "ChunkStreamId msg \<noteq> cmd"
  shows "routeLoop_switch cmd hp dr tid_of msg st =
           (None, st,
            [Warn_discarding_message_on_unknown_chunk_stream (ChunkStreamId msg) msg]) \<and>
         routeLoop cmd hp dr tid_of [msg] st =
           (None, st,
            [Trace_received_message (Some msg),
             Warn_discarding_message_on_unknown_chunk_stream (ChunkStreamId msg) msg,
             Trace_received_message None, Trace_channel_closed_exiting])"
  using assms by (simp add: routeLoop_switch_def)

theorem routeLoop_discards_other_chunk_streams_witness:
  "ChunkStreamId \<lparr>ChunkStreamId = 6, Type = 9, Timestamp = 0, StreamId = 1,
       Payload = [1, 2, 3], TransactionId = 0\<rparr> \<noteq> CHUNK_STREAM_ID_PROTOCOL \<and>
   ChunkStreamId \<lparr>ChunkStreamId = 6, Type = 9, Timestamp = 0, StreamId = 1,
       Payload = [1, 2, 3], TransactionId = 0\<rparr> \<noteq> 3 \<and>
   routeLoop 3 (\<lambda>m s. s\<lparr>client := (client s)\<lparr>inChunkSize := 4096\<rparr>\<rparr>)
     (\<lambda>m. Inr (42::nat)) (\<lambda>r. 7)
     [\<lparr>ChunkStreamId = 6, Type = 9, Timestamp = 0, StreamId = 1,
       Payload = [1, 2, 3], TransactionId = 0\<rparr>]
     \<lparr>client = (zero_Client ''rtmp://h/app'' :: (nat, unit, unit, unit) Client),
      results = None\<rparr> =
    (None, \<lparr>client = zero_Client ''rtmp://h/app'', results = None\<rparr>,
     [Trace_received_message (Some \<lparr>ChunkStreamId = 6, Type = 9, Timestamp = 0, StreamId = 1,
         Payload = [1, 2, 3], TransactionId = 0\<rparr>),
      Warn_discarding_message_on_unknown_chunk_stream 6
        \<lparr>ChunkStreamId = 6, Type = 9, Timestamp = 0, StreamId = 1,
         Payload = [1, 2, 3], TransactionId = 0\<rparr>,
      Trace_received_message None, Trace_channel_closed_exiting])"
proof -
  let ?m = "\<lparr>ChunkStreamId = 6, Type = 9, Timestamp = 0, StreamId = 1,
       Payload = [1, 2, 3], TransactionId = 0\<rparr>"
  have a: "ChunkStreamId ?m \<noteq> CHUNK_STREAM_ID_PROTOCOL"
    by (simp add: CHUNK_STREAM_ID_PROTOCOL_def)
  have b: "ChunkStreamId ?m \<noteq> 3" by simp
  from routeLoop_discards_other_chunk_streams [OF a b,
      of "\<lambda>m s. s\<lparr>client := (client s)\<lparr>inChunkSize := 4096\<rparr>\<rparr>" "\<lambda>m. Inr (42::nat)"
         "\<lambda>r. 7"
         "\<lparr>client = (zero_Client ''rtmp://h/app'' :: (nat, unit, unit, unit) Client),
           results = None\<rparr>"]
  show ?thesis using a b by simp
qed

text \<open>
  The claim C2 as first stated fails on a video message on chunk stream 4, with the
  command stream at 3: the router logs that it discards the message and does nothing
  else.
\<close>

theorem routeLoop_media_message_counterexample:
  "routeLoop_switch 3 (\<lambda>m s. s\<lparr>client := (client s)\<lparr>inChunkSize := 4096\<rparr>\<rparr>)
     (\<lambda>m. Inr (42::nat)) (\<lambda>r. 7)
     \<lparr>ChunkStreamId = 4, Type = 8, Timestamp = 20, StreamId = 1,
       Payload = [175, 1], TransactionId = 0\<rparr>
     \<lparr>client = fst (projr (NewClient ''rtmp://h/app'' \<lparr>chans = [], conns = []\<rparr>
         :: panic + ((nat, unit, unit, unit) Client \<times> heap))),
      results = None\<rparr> =
    (None,
     \<lparr>client = fst (projr (NewClient ''rtmp://h/app'' \<lparr>chans = [], conns = []\<rparr>)),
      results = None\<rparr>,
     [Warn_discarding_message_on_unknown_chunk_stream 4
        \<lparr>ChunkStreamId = 4, Type = 8, Timestamp = 20, StreamId = 1,
          Payload = [175, 1], TransactionId = 0\<rparr>])"
  by (simp add: routeLoop_switch_def CHUNK_STREAM_ID_PROTOCOL_def)

lemma routeLoop_switch_responses:
  assumes "\<And>m s. responses (client (hp m s)) = responses (client s)"
  shows "responses (client (fst (snd (routeLoop_switch cmd hp dr tid_of msg st)))) =
           responses (client st)"
  using assms by (simp add: routeLoop_switch_def routeCommandMessage_client)

lemma routeLoop_responses:
  assumes "\<And>m s. responses (client (hp m s)) = responses (client s)"
  shows "responses (client (fst (snd (routeLoop cmd hp dr tid_of msgs st)))) =
           responses (client st)"
proof (induction msgs arbitrary: st)
  case Nil
  then show ?case by simp
next
  case (Cons msg msgs)
  obtain p st1 l1 where s: "routeLoop_switch cmd hp dr tid_of msg st = (p, st1, l1)"
    by (cases "routeLoop_switch cmd hp dr tid_of msg st") auto
  then have r1: "responses (client st1) = responses (client st)"
    using routeLoop_switch_responses [of hp cmd dr tid_of msg st, OF assms] by simp
  obtain p2 st2 l2 where t: "routeLoop cmd hp dr tid_of msgs st1 = (p2, st2, l2)"
    by (cases "routeLoop cmd hp dr tid_of msgs st1") auto
  then have r2: "responses (client st2) = responses (client st1)"
    using Cons.IH [of st1] by simp
  show ?case
  proof (cases p)
    case None
    with s t r1 r2 show ?thesis by simp
  next
    case (Some q)
    with s r1 show ?thesis by simp
  qed
qed

lemma routeCommandMessage_stores_in_results:
  "dr msg = Inr r \<Longrightarrow> results st = Some m \<Longrightarrow>
     routeCommandMessage dr tid_of msg st =
       (None, st\<lparr>results := Some (m(tid_of r \<mapsto> r))\<rparr>, [])"
  by (simp add: routeCommandMessage_def)

lemma routeCommandMessage_nil_map:
  "dr msg = Inr r \<Longrightarrow> results st = None \<Longrightarrow>
     routeCommandMessage dr tid_of msg st = (Some Assignment_to_entry_in_nil_map, st, [])"
  by (simp add: routeCommandMessage_def)

text \<open>
  C1. The router never writes the table that retrieval reads. \<open>routeCommandMessage\<close>
  stores into \<open>c.results\<close>, or panics there, and leaves the client, and with it
  \<open>c.responses\<close>, as it was, whatever the message decodes to and whatever the state:
  \<open>GetResponse\<close> for any id returns after the routing what it returned before. On a
  new client a retrieval for id 7 therefore still reports not ready after a command
  message has been routed.
\<close>

theorem routeCommandMessage_leaves_retrieval_as_it_was:
  "client (fst (snd (routeCommandMessage dr tid_of msg st))) = client st \<and>
   responses (client (fst (snd (routeCommandMessage dr tid_of msg st)))) =
     responses (client st) \<and>
   GetResponse tid (client (fst (snd (routeCommandMessage dr tid_of msg st)))) =
     GetResponse tid (client st) \<and>
   fst (GetResponse 7 (client (fst (snd (routeCommandMessage dr tid_of msg
      \<lparr>client = fst (projr (NewClient ''rtmp://h/app'' \<lparr>chans = [], conns = []\<rparr>
          :: panic + (('r, 'o, 'i, 'x) Client \<times> heap))),
       results = rs\<rparr>))))) = (None, False)"
  by (simp add: routeCommandMessage_client NewClient_empty_heap GetResponse_def
      zero_Client_def)

subsection \<open>Call\<close>



lemma Call_select_returns_stored:
  "holds_response (responses c) tid \<Longrightarrow>
     Call_select tid (Tick # es) c =
       (Returned (the (responses c tid)) None, c\<lparr>responses := (responses c)(tid := None)\<rparr>)"
  by (auto simp: holds_response_def GetResponse_def split: option.splits)

lemma Call_select_late_response_stays:
  "Call_select tid (Stored tid (Some r) # Timeout # es) c =
     (Returned None (Some ErrResponseTimeout), c\<lparr>responses := (responses c)(tid \<mapsto> Some r)\<rparr>)"
  by simp

lemma Call_select_returns_if_timer_fires:
  "Timeout \<in> set es \<Longrightarrow> \<exists>res err c1. Call_select tid es c = (Returned res err, c1)"
proof (induction es arbitrary: c)
  case Nil
  then show ?case by simp
next
  case (Cons e es)
  show ?case
  proof (cases e)
    case Tick
    obtain res rdy c1 where g: "GetResponse tid c = ((res, rdy), c1)"
      by (cases "GetResponse tid c") auto
    with Cons Tick show ?thesis by (cases rdy) auto
  next
    case Timeout
    then show ?thesis by simp
  next
    case (Stored k v)
    with Cons show ?thesis by simp
  qed
qed




end
